theory Spec2Isabelle
  imports Main
begin

section \<open>Template sets of pongo2 (template\_sets.go)\<close>

text \<open>
  The development embeds \<^verbatim>\<open>template_sets.go\<close>: the \<^verbatim>\<open>TemplateSet\<close> struct, path
  resolution, the ban operations \<^verbatim>\<open>BanTag\<close> and \<^verbatim>\<open>BanFilter\<close>, and the three ways
  of obtaining a template (\<^verbatim>\<open>FromString\<close>, \<^verbatim>\<open>FromFile\<close>, \<^verbatim>\<open>FromCache\<close>) together with
  the two rendering shortcuts.

  Conventions of the embedding.
  \<^item> A method with a pointer receiver takes the set's state and returns the updated state.
  \<^item> Go's \<^verbatim>\<open>(value, error)\<close> results are sums, \<^verbatim>\<open>Inl\<close> carrying the error.
  \<^item> A method that talks to the loader or to the compiler also returns the list of these
    outside calls, in the order in which the source makes them, so that "fetches again"
    and "compiles again" are observable.
  \<^item> The lock \<^verbatim>\<open>templateCacheMutex\<close> is held for the whole cached branch of
    \<^verbatim>\<open>FromCache\<close>; the embedding is sequential, one call at a time.
\<close>

subsection \<open>Errors\<close>

text \<open>
  Go's \<^verbatim>\<open>error\<close> values that this file creates: plain messages (\<^verbatim>\<open>errors.New\<close>,
  \<^verbatim>\<open>fmt.Errorf\<close>) and the struct \<^verbatim>\<open>&Error{Filename, Sender, ErrorMsg}\<close>.
\<close>

datatype error =
    ErrorString string
  | Error (Filename: string) (Sender: string) (ErrorMsg: string)

subsection \<open>The loader interface\<close>

text \<open>
  \<^verbatim>\<open>io.Reader\<close> as \<^verbatim>\<open>FromFile\<close> uses it: the only thing done with a reader is
  \<^verbatim>\<open>ioutil.ReadAll\<close>, which gives the bytes or an error. An error of the loader or of the
  reader is kept as its message (\<^verbatim>\<open>err.Error()\<close>), the only part \<^verbatim>\<open>FromFile\<close> reads.
\<close>

datatype reader = Reader "string + string"

fun ReadAll :: "reader \<Rightarrow> string + string" where
  "ReadAll (Reader r) = r"

text \<open>
  \<^verbatim>\<open>type TemplateLoader interface { Abs(base, name string) string; Get(path string) (io.Reader, error) }\<close>.
  The two methods are functions here: a loader whose answers do not change between calls.
\<close>

record TemplateLoader =
  Abs :: "string \<Rightarrow> string \<Rightarrow> string"
  Get :: "string \<Rightarrow> string + reader"

subsection \<open>Templates and template sets\<close>

text \<open>
  Modelled from the spec: the struct \<^verbatim>\<open>Template\<close> is declared outside
  \<^verbatim>\<open>template_sets.go\<close>. A compiled template "carries its own originating canonical path
  and a flag marking whether it was constructed from a raw string"; these are the two fields
  \<^verbatim>\<open>tpl.name\<close> and \<^verbatim>\<open>tpl.isTplString\<close> that \<^verbatim>\<open>resolveFilename\<close> reads. The source text
  is kept as a third field. A \<^verbatim>\<open>*Template\<close> is a value of this record, \<^verbatim>\<open>nil\<close> is
  \<^verbatim>\<open>None\<close>; nothing in \<^verbatim>\<open>template_sets.go\<close> writes to a template, so "the identical
  template" is equality of these values.
\<close>

record Template =
  tpl_name :: string
  isTplString :: bool
  tpl_source :: string

text \<open>
  The struct \<^verbatim>\<open>TemplateSet\<close>, field by field (the mutex apart). \<^verbatim>\<open>Context\<close> is a map from
  names to values of any type, here the type parameter \<^typ>\<open>'v\<close>.
\<close>

record 'v TemplateSet =
  set_name :: string
  loader :: TemplateLoader
  Globals :: "string \<rightharpoonup> 'v"
  Debug :: bool
  firstTemplateCreated :: bool
  bannedTags :: "string \<rightharpoonup> bool"
  bannedFilters :: "string \<rightharpoonup> bool"
  templateCache :: "string \<rightharpoonup> Template"

text \<open>
  What \<^verbatim>\<open>template_sets.go\<close> uses and does not define, taken as parameters:
  the key sets of the global registries \<^verbatim>\<open>tags\<close> and \<^verbatim>\<open>filters\<close>, the constructors
  \<^verbatim>\<open>newTemplate(set, name, isTplString, tpl)\<close> and \<^verbatim>\<open>newTemplateString(set, tpl)\<close>, and
  \<^verbatim>\<open>tpl.Execute(ctx)\<close>. The constructors receive the set as the source passes it; they
  are taken not to write to its fields.
\<close>

record 'v env =
  tags :: "string set"
  filters :: "string set"
  newTemplate :: "'v TemplateSet \<Rightarrow> string \<Rightarrow> bool \<Rightarrow> string \<Rightarrow> error + Template"
  newTemplateString :: "'v TemplateSet \<Rightarrow> string \<Rightarrow> error + Template"
  Execute :: "Template \<Rightarrow> (string \<rightharpoonup> 'v) \<Rightarrow> error + string"

text \<open>The calls a method makes to the loader, the reader and the compiler.\<close>

datatype call =
    CallGet string
  | CallReadAll
  | CallNewTemplate string bool string
  | CallNewTemplateString string
  | CallExecute Template

definition NewSet :: "string \<Rightarrow> TemplateLoader \<Rightarrow> 'v TemplateSet" where
  "NewSet name l =
     \<lparr> set_name = name, loader = l, Globals = Map.empty, Debug = False,
       firstTemplateCreated = False, bannedTags = Map.empty, bannedFilters = Map.empty,
       templateCache = Map.empty \<rparr>"

subsection \<open>Path resolution\<close>

definition resolveFilename :: "'v TemplateSet \<Rightarrow> Template option \<Rightarrow> string \<Rightarrow> string" where
  "resolveFilename ts tpl path =
     (if tpl \<noteq> None \<and> isTplString (the tpl) then path
      else
        let name = (if tpl \<noteq> None then tpl_name (the tpl) else '''')
        in Abs (loader ts) name path)"

subsection \<open>Banning tags and filters\<close>

definition tag_not_found :: "string \<Rightarrow> error" where
  "tag_not_found name = ErrorString (''Tag '' @ [CHR 0x27] @ name @ [CHR 0x27] @ '' not found.'')"

definition tags_frozen :: error where
  "tags_frozen = ErrorString
     (''You cannot ban any tags after you'' @ [CHR 0x27] @
      ''ve added your first template to your template set.'')"

definition tag_already_banned :: "string \<Rightarrow> error" where
  "tag_already_banned name =
     ErrorString (''Tag '' @ [CHR 0x27] @ name @ [CHR 0x27] @ '' is already banned.'')"

definition filter_not_found :: "string \<Rightarrow> error" where
  "filter_not_found name =
     ErrorString (''Filter '' @ [CHR 0x27] @ name @ [CHR 0x27] @ '' not found.'')"

definition filters_frozen :: error where
  "filters_frozen = ErrorString
     (''You cannot ban any filters after you'' @ [CHR 0x27] @
      ''ve added your first template to your template set.'')"

definition filter_already_banned :: "string \<Rightarrow> error" where
  "filter_already_banned name =
     ErrorString (''Filter '' @ [CHR 0x27] @ name @ [CHR 0x27] @ '' is already banned.'')"

text \<open>The result \<^verbatim>\<open>error\<close> of a ban is \<^verbatim>\<open>None\<close> for \<^verbatim>\<open>nil\<close>.\<close>

definition BanTag :: "'v env \<Rightarrow> 'v TemplateSet \<Rightarrow> string \<Rightarrow> error option \<times> 'v TemplateSet" where
  "BanTag env ts name =
     (if name \<notin> tags env then (Some (tag_not_found name), ts)
      else if firstTemplateCreated ts then (Some tags_frozen, ts)
      else if bannedTags ts name \<noteq> None then (Some (tag_already_banned name), ts)
      else (None, ts\<lparr>bannedTags := (bannedTags ts)(name \<mapsto> True)\<rparr>))"

definition BanFilter :: "'v env \<Rightarrow> 'v TemplateSet \<Rightarrow> string \<Rightarrow> error option \<times> 'v TemplateSet" where
  "BanFilter env ts name =
     (if name \<notin> filters env then (Some (filter_not_found name), ts)
      else if firstTemplateCreated ts then (Some filters_frozen, ts)
      else if bannedFilters ts name \<noteq> None then (Some (filter_already_banned name), ts)
      else (None, ts\<lparr>bannedFilters := (bannedFilters ts)(name \<mapsto> True)\<rparr>))"

subsection \<open>Creating templates\<close>

definition FromString ::
  "'v env \<Rightarrow> 'v TemplateSet \<Rightarrow> string \<Rightarrow> (error + Template) \<times> 'v TemplateSet \<times> call list" where
  "FromString env ts tpl =
     (let ts1 = ts\<lparr>firstTemplateCreated := True\<rparr>
      in (newTemplateString env ts1 tpl, ts1, [CallNewTemplateString tpl]))"

definition FromFile ::
  "'v env \<Rightarrow> 'v TemplateSet \<Rightarrow> string \<Rightarrow> (error + Template) \<times> 'v TemplateSet \<times> call list" where
  "FromFile env ts filename =
     (let ts1 = ts\<lparr>firstTemplateCreated := True\<rparr>;
          path = resolveFilename ts1 None filename
      in case Get (loader ts1) path of
           Inl err \<Rightarrow> (Inl (Error filename ''fromfile'' err), ts1, [CallGet path])
         | Inr fd \<Rightarrow>
             (case ReadAll fd of
                Inl err \<Rightarrow>
                  (Inl (Error filename ''fromfile'' err), ts1, [CallGet path, CallReadAll])
              | Inr buf \<Rightarrow>
                  (newTemplate env ts1 filename False buf, ts1,
                   [CallGet path, CallReadAll, CallNewTemplate filename False buf])))"

definition FromCache ::
  "'v env \<Rightarrow> 'v TemplateSet \<Rightarrow> string \<Rightarrow> (error + Template) \<times> 'v TemplateSet \<times> call list" where
  "FromCache env ts filename =
     (if Debug ts then FromFile env ts filename
      else
        let cleanedFilename = resolveFilename ts None filename
        in case templateCache ts cleanedFilename of
             None \<Rightarrow>
               (case FromFile env ts cleanedFilename of
                  (Inl err, ts1, cs) \<Rightarrow> (Inl err, ts1, cs)
                | (Inr tpl, ts1, cs) \<Rightarrow>
                    (Inr tpl,
                     ts1\<lparr>templateCache := (templateCache ts1)(cleanedFilename \<mapsto> tpl)\<rparr>, cs))
           | Some tpl \<Rightarrow> (Inr tpl, ts, []))"

subsection \<open>Rendering shortcuts\<close>

text \<open>
  \<^verbatim>\<open>RenderTemplateString\<close> and \<^verbatim>\<open>RenderTemplateFile\<close> return the rendered text or panic:
  \<^verbatim>\<open>Must\<close> panics with the error of the compile, and an error of \<^verbatim>\<open>Execute\<close> is
  thrown with \<^verbatim>\<open>panic(err)\<close>.
\<close>

datatype rendered = Returned string | Panic error

definition RenderTemplateString ::
  "'v env \<Rightarrow> 'v TemplateSet \<Rightarrow> string \<Rightarrow> (string \<rightharpoonup> 'v) \<Rightarrow> rendered \<times> 'v TemplateSet \<times> call list" where
  "RenderTemplateString env ts s ctx =
     (let ts0 = ts\<lparr>firstTemplateCreated := True\<rparr>
      in case FromString env ts0 s of
           (Inl err, ts1, cs) \<Rightarrow> (Panic err, ts1, cs)
         | (Inr tpl, ts1, cs) \<Rightarrow>
             (case Execute env tpl ctx of
                Inl err \<Rightarrow> (Panic err, ts1, cs @ [CallExecute tpl])
              | Inr result \<Rightarrow> (Returned result, ts1, cs @ [CallExecute tpl])))"

definition RenderTemplateFile ::
  "'v env \<Rightarrow> 'v TemplateSet \<Rightarrow> string \<Rightarrow> (string \<rightharpoonup> 'v) \<Rightarrow> rendered \<times> 'v TemplateSet \<times> call list" where
  "RenderTemplateFile env ts fn ctx =
     (let ts0 = ts\<lparr>firstTemplateCreated := True\<rparr>
      in case FromFile env ts0 fn of
           (Inl err, ts1, cs) \<Rightarrow> (Panic err, ts1, cs)
         | (Inr tpl, ts1, cs) \<Rightarrow>
             (case Execute env tpl ctx of
                Inl err \<Rightarrow> (Panic err, ts1, cs @ [CallExecute tpl])
              | Inr result \<Rightarrow> (Returned result, ts1, cs @ [CallExecute tpl])))"

subsection \<open>The lifetime of a set\<close>

text \<open>
  What a client can do to a set: call one of its methods, or assign to one of the two
  exported fields \<^verbatim>\<open>Debug\<close> and \<^verbatim>\<open>Globals\<close>. \<^verbatim>\<open>step\<close> is the state after one such
  action and \<^verbatim>\<open>run\<close> the state after a sequence of them.
\<close>

datatype 'v action =
    DoBanTag string
  | DoBanFilter string
  | DoFromString string
  | DoFromFile string
  | DoFromCache string
  | DoRenderTemplateString string "string \<rightharpoonup> 'v"
  | DoRenderTemplateFile string "string \<rightharpoonup> 'v"
  | SetDebug bool
  | SetGlobals "string \<rightharpoonup> 'v"

fun step :: "'v env \<Rightarrow> 'v action \<Rightarrow> 'v TemplateSet \<Rightarrow> 'v TemplateSet" where
  "step env (DoBanTag name) ts = snd (BanTag env ts name)"
| "step env (DoBanFilter name) ts = snd (BanFilter env ts name)"
| "step env (DoFromString tpl) ts = fst (snd (FromString env ts tpl))"
| "step env (DoFromFile filename) ts = fst (snd (FromFile env ts filename))"
| "step env (DoFromCache filename) ts = fst (snd (FromCache env ts filename))"
| "step env (DoRenderTemplateString s ctx) ts = fst (snd (RenderTemplateString env ts s ctx))"
| "step env (DoRenderTemplateFile fn ctx) ts = fst (snd (RenderTemplateFile env ts fn ctx))"
| "step env (SetDebug b) ts = ts\<lparr>Debug := b\<rparr>"
| "step env (SetGlobals g) ts = ts\<lparr>Globals := g\<rparr>"

fun run :: "'v env \<Rightarrow> 'v action list \<Rightarrow> 'v TemplateSet \<Rightarrow> 'v TemplateSet" where
  "run env [] ts = ts"
| "run env (a # as) ts = run env as (step env a ts)"

text \<open>The actions that create a template, and whether such an action succeeds.\<close>

fun compiles :: "'v action \<Rightarrow> bool" where
  "compiles (DoFromString tpl) = True"
| "compiles (DoFromFile filename) = True"
| "compiles (DoFromCache filename) = True"
| "compiles (DoRenderTemplateString s ctx) = True"
| "compiles (DoRenderTemplateFile fn ctx) = True"
| "compiles a = False"

fun succeeds :: "'v env \<Rightarrow> 'v action \<Rightarrow> 'v TemplateSet \<Rightarrow> bool" where
  "succeeds env (DoFromString tpl) ts = (\<not> isl (fst (FromString env ts tpl)))"
| "succeeds env (DoFromFile filename) ts = (\<not> isl (fst (FromFile env ts filename)))"
| "succeeds env (DoFromCache filename) ts = (\<not> isl (fst (FromCache env ts filename)))"
| "succeeds env a ts = False"

subsection \<open>A loader and a compiler to compute with\<close>

text \<open>
  A loader that keeps its templates under \<^verbatim>\<open>tpl/\<close>: \<^verbatim>\<open>Abs\<close> prefixes the name, and
  \<^verbatim>\<open>Get\<close> serves one file, \<^verbatim>\<open>tpl/page.txt\<close>.
\<close>

definition prefix_loader :: TemplateLoader where
  "prefix_loader =
     \<lparr> Abs = (\<lambda>base name. ''tpl/'' @ name),
       Get = (\<lambda>path. if path = ''tpl/page.txt'' then Inr (Reader (Inr ''hello''))
                     else Inl ''not found'') \<rparr>"

text \<open>A loader whose \<^verbatim>\<open>Abs\<close> returns the name as it is; it serves \<^verbatim>\<open>page.txt\<close> and \<^verbatim>\<open>bad.txt\<close>.\<close>

definition plain_loader :: TemplateLoader where
  "plain_loader =
     \<lparr> Abs = (\<lambda>base name. name),
       Get = (\<lambda>path. if path = ''page.txt'' then Inr (Reader (Inr ''hello''))
                     else if path = ''bad.txt'' then Inr (Reader (Inr ''{%''))
                     else Inl ''not found'') \<rparr>"

text \<open>
  A compiler that rejects the source \<^verbatim>\<open>{%\<close> and accepts every other one, and registries
  with the tags \<^verbatim>\<open>ssi\<close> and \<^verbatim>\<open>include\<close> and the filter \<^verbatim>\<open>upper\<close>.
\<close>

definition toy_env :: "unit env" where
  "toy_env =
     \<lparr> tags = {''ssi'', ''include''},
       filters = {''upper''},
       newTemplate = (\<lambda>ts name b buf.
          if buf = ''{%'' then Inl (Error name ''parser'' ''unexpected EOF'')
          else Inr \<lparr> tpl_name = name, isTplString = b, tpl_source = buf \<rparr>),
       newTemplateString = (\<lambda>ts buf.
          if buf = ''{%'' then Inl (Error ''<string>'' ''parser'' ''unexpected EOF'')
          else Inr \<lparr> tpl_name = ''<string>'', isTplString = True, tpl_source = buf \<rparr>),
       Execute = (\<lambda>t ctx. Inr (tpl_source t)) \<rparr>"

definition prefix_set :: "unit TemplateSet" where
  "prefix_set = NewSet ''mail'' prefix_loader"

definition plain_set :: "unit TemplateSet" where
  "plain_set = NewSet ''web'' plain_loader"

text \<open>The template that the compiler makes of \<^verbatim>\<open>page.txt\<close>.\<close>

definition page_tpl :: Template where
  "page_tpl = \<lparr> tpl_name = ''page.txt'', isTplString = False, tpl_source = ''hello'' \<rparr>"

text \<open>
  A set whose banned sets are frozen: \<^verbatim>\<open>ssi\<close> is banned on a new set, then a template is made
  from the string \<^verbatim>\<open>hello\<close>.
\<close>

definition frozen_set :: "unit TemplateSet" where
  "frozen_set = run toy_env [DoBanTag ''ssi'', DoFromString ''hello''] plain_set"

text \<open>A template made from a string, as \<^verbatim>\<open>FromString\<close> returns it from the compiler above.\<close>

definition string_tpl :: Template where
  "string_tpl = \<lparr> tpl_name = ''<string>'', isTplString = True, tpl_source = ''hello'' \<rparr>"

text \<open>A set in debug mode: the client has assigned \<^verbatim>\<open>true\<close> to \<^verbatim>\<open>Debug\<close>.\<close>

definition debug_set :: "unit TemplateSet" where
  "debug_set = plain_set\<lparr>Debug := True\<rparr>"

text \<open>
  A set in debug mode whose cache holds, under \<^verbatim>\<open>page.txt\<close>, a template that is not the
  one the compiler makes of that file.
\<close>

definition stale_debug_set :: "unit TemplateSet" where
  "stale_debug_set = debug_set\<lparr>templateCache := [''page.txt'' \<mapsto> string_tpl]\<rparr>"

subsection \<open>An invariant of the cache\<close>

text \<open>
  Only \<^verbatim>\<open>FromCache\<close> writes to the cache, and it does so after \<^verbatim>\<open>FromFile\<close> has set
  \<^verbatim>\<open>firstTemplateCreated\<close>: a set with an entry in its cache has the flag set.
\<close>

definition cache_after_compile :: "'v TemplateSet \<Rightarrow> bool" where
  "cache_after_compile ts = (firstTemplateCreated ts \<or> templateCache ts = Map.empty)"

section \<open>Properties\<close>

subsection \<open>The state after each method\<close>

lemma FromString_state:
  "fst (snd (FromString env ts tpl)) = ts\<lparr>firstTemplateCreated := True\<rparr>"
  by (simp add: FromString_def Let_def)

lemma FromFile_state:
  "fst (snd (FromFile env ts filename)) = ts\<lparr>firstTemplateCreated := True\<rparr>"
  by (simp add: FromFile_def Let_def split: sum.split)

lemma FromCache_state:
  "fst (snd (FromCache env ts filename)) =
     (if Debug ts then ts\<lparr>firstTemplateCreated := True\<rparr>
      else case templateCache ts (resolveFilename ts None filename) of
             Some tpl \<Rightarrow> ts
           | None \<Rightarrow>
               (case fst (FromFile env ts (resolveFilename ts None filename)) of
                  Inl err \<Rightarrow> ts\<lparr>firstTemplateCreated := True\<rparr>
                | Inr tpl \<Rightarrow>
                    ts\<lparr>firstTemplateCreated := True,
                       templateCache := (templateCache ts)(resolveFilename ts None filename \<mapsto> tpl)\<rparr>))"
proof -
  obtain r ts1 cs where ff: "FromFile env ts (resolveFilename ts None filename) = (r, ts1, cs)"
    by (metis prod_cases3)
  have ts1: "ts1 = ts\<lparr>firstTemplateCreated := True\<rparr>"
    using FromFile_state [of env ts "resolveFilename ts None filename"] ff by simp
  show ?thesis
    by (simp add: FromCache_def Let_def FromFile_state ff ts1 split: option.split sum.split)
qed

lemma RenderTemplateString_state:
  "fst (snd (RenderTemplateString env ts s ctx)) = ts\<lparr>firstTemplateCreated := True\<rparr>"
proof -
  obtain r ts1 cs where ff:
    "FromString env (ts\<lparr>firstTemplateCreated := True\<rparr>) s = (r, ts1, cs)"
    by (metis prod_cases3)
  have "ts1 = ts\<lparr>firstTemplateCreated := True\<rparr>"
    using FromString_state [of env "ts\<lparr>firstTemplateCreated := True\<rparr>" s] ff by simp
  then show ?thesis
    by (simp add: RenderTemplateString_def Let_def ff split: sum.split)
qed

lemma RenderTemplateFile_state:
  "fst (snd (RenderTemplateFile env ts fn ctx)) = ts\<lparr>firstTemplateCreated := True\<rparr>"
proof -
  obtain r ts1 cs where ff:
    "FromFile env (ts\<lparr>firstTemplateCreated := True\<rparr>) fn = (r, ts1, cs)"
    by (metis prod_cases3)
  have "ts1 = ts\<lparr>firstTemplateCreated := True\<rparr>"
    using FromFile_state [of env "ts\<lparr>firstTemplateCreated := True\<rparr>" fn] ff by simp
  then show ?thesis
    by (simp add: RenderTemplateFile_def Let_def ff split: sum.split)
qed

lemma BanTag_state:
  "snd (BanTag env ts name) = ts \<or>
   snd (BanTag env ts name) = ts\<lparr>bannedTags := (bannedTags ts)(name \<mapsto> True)\<rparr>"
  by (simp add: BanTag_def)

lemma BanFilter_state:
  "snd (BanFilter env ts name) = ts \<or>
   snd (BanFilter env ts name) = ts\<lparr>bannedFilters := (bannedFilters ts)(name \<mapsto> True)\<rparr>"
  by (simp add: BanFilter_def)

lemmas step_states =
  FromString_state FromFile_state FromCache_state RenderTemplateString_state
  RenderTemplateFile_state

lemma loader_step: "loader (step env a ts) = loader ts"
proof (cases a)
  case (DoBanTag name)
  then show ?thesis using BanTag_state [of env ts name] by auto
next
  case (DoBanFilter name)
  then show ?thesis using BanFilter_state [of env ts name] by auto
qed (simp_all add: step_states split: option.split sum.split)

lemma latch_step:
  assumes "firstTemplateCreated ts"
  shows "firstTemplateCreated (step env a ts)"
proof (cases a)
  case (DoBanTag name)
  then show ?thesis using assms BanTag_state [of env ts name] by auto
next
  case (DoBanFilter name)
  then show ?thesis using assms BanFilter_state [of env ts name] by auto
qed (use assms in \<open>simp_all add: step_states split: option.split sum.split\<close>)

lemma cache_step:
  assumes "templateCache ts k = Some t"
  shows "templateCache (step env a ts) k = Some t"
proof (cases a)
  case (DoBanTag name)
  then show ?thesis using assms BanTag_state [of env ts name] by auto
next
  case (DoBanFilter name)
  then show ?thesis using assms BanFilter_state [of env ts name] by auto
qed (use assms in \<open>auto simp add: step_states split: option.split sum.split\<close>)


lemma inv_step:
  assumes "cache_after_compile ts"
  shows "cache_after_compile (step env a ts)"
proof (cases a)
  case (DoBanTag name)
  then show ?thesis using assms BanTag_state [of env ts name] by (auto simp: cache_after_compile_def)
next
  case (DoBanFilter name)
  then show ?thesis using assms BanFilter_state [of env ts name] by (auto simp: cache_after_compile_def)
qed (use assms in \<open>auto simp add: step_states cache_after_compile_def split: option.split sum.split\<close>)

lemma loader_run: "loader (run env as ts) = loader ts"
  by (induction as arbitrary: ts) (simp_all add: loader_step)

lemma latch_run: "firstTemplateCreated ts \<Longrightarrow> firstTemplateCreated (run env as ts)"
  by (induction as arbitrary: ts) (simp_all add: latch_step)

lemma cache_run:
  "templateCache ts k = Some t \<Longrightarrow> templateCache (run env as ts) k = Some t"
  by (induction as arbitrary: ts) (simp_all add: cache_step)

lemma inv_run: "cache_after_compile ts \<Longrightarrow> cache_after_compile (run env as ts)"
  by (induction as arbitrary: ts) (simp_all add: inv_step)

lemma latch_unset_step:
  assumes "\<not> compiles a"
  shows "firstTemplateCreated (step env a ts) = firstTemplateCreated ts"
proof (cases a)
  case (DoBanTag name)
  then show ?thesis using BanTag_state [of env ts name] by auto
next
  case (DoBanFilter name)
  then show ?thesis using BanFilter_state [of env ts name] by auto
qed (use assms in simp_all)

lemma latch_unset_run:
  "\<forall>a \<in> set as. \<not> compiles a \<Longrightarrow>
   firstTemplateCreated (run env as ts) = firstTemplateCreated ts"
  by (induction as arbitrary: ts) (simp_all add: latch_unset_step)

lemma inv_NewSet: "cache_after_compile (NewSet n l)"
  by (simp add: cache_after_compile_def NewSet_def)

lemma latch_after_success:
  assumes "cache_after_compile ts" and "succeeds env a ts"
  shows "firstTemplateCreated (step env a ts)"
proof (cases a)
  case (DoFromCache filename)
  show ?thesis
  proof (cases "templateCache ts (resolveFilename ts None filename)")
    case None
    then show ?thesis using DoFromCache
      by (simp add: FromCache_state split: sum.split)
  next
    case (Some t)
    then have "templateCache ts \<noteq> Map.empty" by auto
    then have "firstTemplateCreated ts" using assms(1) by (simp add: cache_after_compile_def)
    then show ?thesis using DoFromCache latch_step by blast
  qed
qed (use assms in \<open>simp_all add: step_states\<close>)

subsection \<open>The banned sets freeze at the first compile\<close>

text \<open>
  Claim C2. Take a set as it is after any sequence \<open>pre\<close> of actions on a new set.
  If no action of \<open>pre\<close> creates a template, banning a registered tag (or filter) that
  is not yet banned succeeds and adds it to the banned set. If an action \<open>a\<close>
  (\<^verbatim>\<open>FromString\<close>, \<^verbatim>\<open>FromFile\<close> or \<^verbatim>\<open>FromCache\<close>) succeeds on the set, then after it,
  and after any further actions \<open>post\<close>, the same ban fails with the error that the set
  is frozen, and the set, its banned sets included, is left as it was.
\<close>

theorem ban_frozen_after_compile:
  assumes "ts = run env pre (NewSet n l)"
  shows "(name \<in> tags env \<and> (\<forall>a \<in> set pre. \<not> compiles a) \<and> bannedTags ts name = None \<longrightarrow>
            BanTag env ts name = (None, ts\<lparr>bannedTags := (bannedTags ts)(name \<mapsto> True)\<rparr>))
       \<and> (name \<in> filters env \<and> (\<forall>a \<in> set pre. \<not> compiles a) \<and> bannedFilters ts name = None \<longrightarrow>
            BanFilter env ts name =
              (None, ts\<lparr>bannedFilters := (bannedFilters ts)(name \<mapsto> True)\<rparr>))
       \<and> (name \<in> tags env \<and> succeeds env a ts \<longrightarrow>
            BanTag env (run env post (step env a ts)) name =
              (Some tags_frozen, run env post (step env a ts)))
       \<and> (name \<in> filters env \<and> succeeds env a ts \<longrightarrow>
            BanFilter env (run env post (step env a ts)) name =
              (Some filters_frozen, run env post (step env a ts)))"
proof -
  have inv: "cache_after_compile ts"
    using assms inv_run inv_NewSet by blast
  have fresh: "(\<forall>a \<in> set pre. \<not> compiles a) \<Longrightarrow> \<not> firstTemplateCreated ts"
    using assms latch_unset_run [of pre env "NewSet n l"] by (simp add: NewSet_def)
  have frozen: "succeeds env a ts \<Longrightarrow> firstTemplateCreated (run env post (step env a ts))"
    using inv latch_after_success latch_run by blast
  have 1: "name \<in> tags env \<and> (\<forall>a \<in> set pre. \<not> compiles a) \<and> bannedTags ts name = None \<longrightarrow>
            BanTag env ts name = (None, ts\<lparr>bannedTags := (bannedTags ts)(name \<mapsto> True)\<rparr>)"
    using fresh by (simp add: BanTag_def)
  have 2: "name \<in> filters env \<and> (\<forall>a \<in> set pre. \<not> compiles a) \<and> bannedFilters ts name = None \<longrightarrow>
            BanFilter env ts name =
              (None, ts\<lparr>bannedFilters := (bannedFilters ts)(name \<mapsto> True)\<rparr>)"
    using fresh by (simp add: BanFilter_def)
  have 3: "name \<in> tags env \<and> succeeds env a ts \<longrightarrow>
            BanTag env (run env post (step env a ts)) name =
              (Some tags_frozen, run env post (step env a ts))"
    using frozen by (simp add: BanTag_def)
  have 4: "name \<in> filters env \<and> succeeds env a ts \<longrightarrow>
            BanFilter env (run env post (step env a ts)) name =
              (Some filters_frozen, run env post (step env a ts))"
    using frozen by (simp add: BanFilter_def)
  show ?thesis using 1 2 3 4 by blast
qed

text \<open>The definitions that evaluate the methods on the two example sets.\<close>

lemmas toy_defs =
  toy_env_def plain_set_def prefix_set_def plain_loader_def prefix_loader_def NewSet_def
  BanTag_def BanFilter_def FromString_def FromFile_def FromCache_def resolveFilename_def
  RenderTemplateString_def RenderTemplateFile_def Let_def
  tags_frozen_def filters_frozen_def tag_not_found_def filter_not_found_def
  tag_already_banned_def filter_already_banned_def

theorem ban_frozen_after_compile_witness:
  "BanTag toy_env (run toy_env [DoBanTag ''ssi''] plain_set) ''include'' =
     (None, (run toy_env [DoBanTag ''ssi''] plain_set)
        \<lparr>bannedTags := (bannedTags (run toy_env [DoBanTag ''ssi''] plain_set))(''include'' \<mapsto> True)\<rparr>)
   \<and> succeeds toy_env (DoFromString ''hello'') (run toy_env [DoBanTag ''ssi''] plain_set)
   \<and> BanTag toy_env
       (run toy_env [] (step toy_env (DoFromString ''hello'') (run toy_env [DoBanTag ''ssi''] plain_set)))
       ''include'' =
     (Some tags_frozen,
      run toy_env [] (step toy_env (DoFromString ''hello'') (run toy_env [DoBanTag ''ssi''] plain_set)))"
proof -
  have ts: "run toy_env [DoBanTag ''ssi''] plain_set = run toy_env [DoBanTag ''ssi''] (NewSet ''web'' plain_loader)"
    by (simp add: plain_set_def)
  have valid: "''include'' \<in> tags toy_env" by (simp add: toy_env_def)
  have pre: "\<forall>a \<in> set [DoBanTag ''ssi'' :: unit action]. \<not> compiles a" by simp
  have free: "bannedTags (run toy_env [DoBanTag ''ssi''] plain_set) ''include'' = None"
    by (simp add: toy_defs)
  have ok: "succeeds toy_env (DoFromString ''hello'') (run toy_env [DoBanTag ''ssi''] plain_set)"
    by (simp add: toy_defs)
  show ?thesis
    using ban_frozen_after_compile [OF ts, of "''include''" "DoFromString ''hello''" "[]"] valid pre free ok
    by blast
qed

subsection \<open>Entries of the cache are permanent\<close>

text \<open>
  Claim C1. When \<^verbatim>\<open>FromCache\<close> succeeds on a set with \<^verbatim>\<open>Debug\<close> false, the returned
  template is the cache's entry under the resolved name. An entry of the cache, once
  there, is still there, unchanged, after any sequence of actions on the set: no action
  replaces or removes it, so a key never has two different templates. Every later
  \<^verbatim>\<open>FromCache\<close> call made while \<^verbatim>\<open>Debug\<close> is false whose filename resolves to that key
  returns that stored template, changes nothing and calls neither the loader nor the
  compiler.
\<close>

theorem cache_entry_permanent:
  "(\<not> Debug ts0 \<and> fst (FromCache env ts0 f0) = Inr t \<longrightarrow>
      templateCache (step env (DoFromCache f0) ts0) (resolveFilename ts0 None f0) = Some t)
   \<and> (templateCache ts k = Some t \<longrightarrow>
        templateCache (run env as ts) k = Some t
        \<and> (\<not> Debug (run env as ts) \<and> resolveFilename (run env as ts) None filename = k \<longrightarrow>
             FromCache env (run env as ts) filename = (Inr t, run env as ts, [])))"
proof -
  have store: "\<not> Debug ts0 \<and> fst (FromCache env ts0 f0) = Inr t \<longrightarrow>
      templateCache (step env (DoFromCache f0) ts0) (resolveFilename ts0 None f0) = Some t"
  proof (intro impI, elim conjE)
    assume nd: "\<not> Debug ts0" and ok: "fst (FromCache env ts0 f0) = Inr t"
    obtain r ts1 cs where ff: "FromFile env ts0 (resolveFilename ts0 None f0) = (r, ts1, cs)"
      by (metis prod_cases3)
    show "templateCache (step env (DoFromCache f0) ts0) (resolveFilename ts0 None f0) = Some t"
    proof (cases "templateCache ts0 (resolveFilename ts0 None f0)")
      case None
      then show ?thesis using nd ok ff
        by (cases r) (simp_all add: FromCache_def Let_def)
    next
      case (Some u)
      then show ?thesis using nd ok by (simp add: FromCache_def Let_def)
    qed
  qed
  have keep: "templateCache ts k = Some t \<Longrightarrow> templateCache (run env as ts) k = Some t"
    by (rule cache_run)
  have hit: "templateCache ts k = Some t \<Longrightarrow>
      \<not> Debug (run env as ts) \<and> resolveFilename (run env as ts) None filename = k \<longrightarrow>
      FromCache env (run env as ts) filename = (Inr t, run env as ts, [])"
    using keep by (simp add: FromCache_def Let_def)
  show ?thesis using store keep hit by blast
qed


theorem cache_entry_permanent_witness:
  "\<not> Debug plain_set \<and> fst (FromCache toy_env plain_set ''page.txt'') = Inr page_tpl
   \<and> templateCache (step toy_env (DoFromCache ''page.txt'') plain_set) ''page.txt'' = Some page_tpl
   \<and> FromCache toy_env
        (run toy_env [DoFromFile ''page.txt'', DoBanTag ''ssi'', DoFromCache ''bad.txt'']
           (step toy_env (DoFromCache ''page.txt'') plain_set))
        ''page.txt'' =
      (Inr page_tpl,
       run toy_env [DoFromFile ''page.txt'', DoBanTag ''ssi'', DoFromCache ''bad.txt'']
           (step toy_env (DoFromCache ''page.txt'') plain_set),
       [])"
proof -
  let ?ts = "step toy_env (DoFromCache ''page.txt'') plain_set"
  let ?as = "[DoFromFile ''page.txt'', DoBanTag ''ssi'', DoFromCache ''bad.txt'']"
  have nd: "\<not> Debug plain_set" by (simp add: toy_defs)
  have ok: "fst (FromCache toy_env plain_set ''page.txt'') = Inr page_tpl"
    by (simp add: toy_defs page_tpl_def)
  have key: "resolveFilename plain_set None ''page.txt'' = ''page.txt''"
    by (simp add: toy_defs)
  have nd2: "\<not> Debug (run toy_env ?as ?ts)"
    by (simp add: toy_defs)
  have key2: "resolveFilename (run toy_env ?as ?ts) None ''page.txt'' = ''page.txt''"
    by (simp add: toy_defs)
  show ?thesis
    using cache_entry_permanent [of plain_set toy_env "''page.txt''" page_tpl ?ts "''page.txt''" ?as "''page.txt''"]
      nd ok key nd2 key2
    by simp
qed

subsection \<open>What a ban changes\<close>

text \<open>
  Claim C10. The set after \<^verbatim>\<open>BanTag\<close> is the set before it with at most the field
  \<^verbatim>\<open>bannedTags\<close> changed, and the set after \<^verbatim>\<open>BanFilter\<close> is the set before it with at
  most the field \<^verbatim>\<open>bannedFilters\<close> changed, whether the call succeeds or fails: name,
  loader, \<^verbatim>\<open>Globals\<close>, \<^verbatim>\<open>Debug\<close>, \<^verbatim>\<open>firstTemplateCreated\<close>, the cache and the other
  banned set are as before.
\<close>

theorem ban_frame:
  "snd (BanTag env ts name) = ts\<lparr>bannedTags := bannedTags (snd (BanTag env ts name))\<rparr>
   \<and> bannedFilters (snd (BanTag env ts name)) = bannedFilters ts
   \<and> snd (BanFilter env ts name) = ts\<lparr>bannedFilters := bannedFilters (snd (BanFilter env ts name))\<rparr>
   \<and> bannedTags (snd (BanFilter env ts name)) = bannedTags ts"
  by (simp add: BanTag_def BanFilter_def)

subsection \<open>The three ways a ban fails\<close>

text \<open>
  Claim C7, as the source has it. \<^verbatim>\<open>BanTag\<close> fails with the not-found error when the
  name is not a registered tag; for a registered name it fails with the frozen error when
  \<^verbatim>\<open>firstTemplateCreated\<close> is set, and with the already-banned error when the flag is
  not set and the name is in \<^verbatim>\<open>bannedTags\<close>. The checks are made in this order before
  any write, so a failing call leaves the set as it was; a successful call adds exactly
  the name to \<^verbatim>\<open>bannedTags\<close>. The same holds of \<^verbatim>\<open>BanFilter\<close> with the filters.
\<close>

theorem ban_errors:
  "(name \<notin> tags env \<longrightarrow> BanTag env ts name = (Some (tag_not_found name), ts))
   \<and> (name \<in> tags env \<and> firstTemplateCreated ts \<longrightarrow> BanTag env ts name = (Some tags_frozen, ts))
   \<and> (name \<in> tags env \<and> \<not> firstTemplateCreated ts \<and> bannedTags ts name \<noteq> None \<longrightarrow>
        BanTag env ts name = (Some (tag_already_banned name), ts))
   \<and> (fst (BanTag env ts name) \<noteq> None \<longrightarrow> snd (BanTag env ts name) = ts)
   \<and> (fst (BanTag env ts name) = None \<longrightarrow>
        snd (BanTag env ts name) = ts\<lparr>bannedTags := (bannedTags ts)(name \<mapsto> True)\<rparr>)
   \<and> (name \<notin> filters env \<longrightarrow> BanFilter env ts name = (Some (filter_not_found name), ts))
   \<and> (name \<in> filters env \<and> firstTemplateCreated ts \<longrightarrow>
        BanFilter env ts name = (Some filters_frozen, ts))
   \<and> (name \<in> filters env \<and> \<not> firstTemplateCreated ts \<and> bannedFilters ts name \<noteq> None \<longrightarrow>
        BanFilter env ts name = (Some (filter_already_banned name), ts))
   \<and> (fst (BanFilter env ts name) \<noteq> None \<longrightarrow> snd (BanFilter env ts name) = ts)
   \<and> (fst (BanFilter env ts name) = None \<longrightarrow>
        snd (BanFilter env ts name) = ts\<lparr>bannedFilters := (bannedFilters ts)(name \<mapsto> True)\<rparr>)"
  by (simp add: BanTag_def BanFilter_def)

lemma frozen_set_eq:
  "frozen_set = plain_set\<lparr>firstTemplateCreated := True, bannedTags := [''ssi'' \<mapsto> True]\<rparr>"
  by (simp add: frozen_set_def toy_defs)

text \<open>
  The set \<open>frozen_set\<close> is a new set on which \<^verbatim>\<open>ssi\<close> was banned and then a template
  was made from a string. On it \<^verbatim>\<open>ssi\<close> is a registered tag that is already banned.
\<close>

theorem ban_errors_witness:
  "BanTag toy_env plain_set ''extends'' = (Some (tag_not_found ''extends''), plain_set)
   \<and> BanTag toy_env frozen_set ''include'' = (Some tags_frozen, frozen_set)
   \<and> BanTag toy_env (step toy_env (DoBanTag ''ssi'') plain_set) ''ssi'' =
       (Some (tag_already_banned ''ssi''), step toy_env (DoBanTag ''ssi'') plain_set)
   \<and> snd (BanTag toy_env plain_set ''ssi'') =
       plain_set\<lparr>bannedTags := (bannedTags plain_set)(''ssi'' \<mapsto> True)\<rparr>
   \<and> BanFilter toy_env plain_set ''lower'' = (Some (filter_not_found ''lower''), plain_set)
   \<and> BanFilter toy_env frozen_set ''upper'' = (Some filters_frozen, frozen_set)
   \<and> BanFilter toy_env (step toy_env (DoBanFilter ''upper'') plain_set) ''upper'' =
       (Some (filter_already_banned ''upper''), step toy_env (DoBanFilter ''upper'') plain_set)
   \<and> snd (BanFilter toy_env plain_set ''upper'') =
       plain_set\<lparr>bannedFilters := (bannedFilters plain_set)(''upper'' \<mapsto> True)\<rparr>"
proof -
  have a: "''extends'' \<notin> tags toy_env" "''include'' \<in> tags toy_env" "''ssi'' \<in> tags toy_env"
    "''lower'' \<notin> filters toy_env" "''upper'' \<in> filters toy_env"
    by (simp_all add: toy_env_def)
  have b: "firstTemplateCreated frozen_set"
    by (simp add: frozen_set_eq)
  have c: "\<not> firstTemplateCreated (step toy_env (DoBanTag ''ssi'') plain_set)"
    "bannedTags (step toy_env (DoBanTag ''ssi'') plain_set) ''ssi'' \<noteq> None"
    "\<not> firstTemplateCreated (step toy_env (DoBanFilter ''upper'') plain_set)"
    "bannedFilters (step toy_env (DoBanFilter ''upper'') plain_set) ''upper'' \<noteq> None"
    by (simp_all add: BanTag_def BanFilter_def toy_env_def plain_set_def NewSet_def)
  have d: "fst (BanTag toy_env plain_set ''ssi'') = None"
    "fst (BanFilter toy_env plain_set ''upper'') = None"
    by (simp_all add: BanTag_def BanFilter_def toy_env_def plain_set_def NewSet_def)
  have 1: "BanTag toy_env plain_set ''extends'' = (Some (tag_not_found ''extends''), plain_set)"
    using ban_errors [of "''extends''" toy_env plain_set] a by blast
  have 2: "BanTag toy_env frozen_set ''include'' = (Some tags_frozen, frozen_set)"
    using ban_errors [of "''include''" toy_env frozen_set] a b by blast
  have 3: "BanTag toy_env (step toy_env (DoBanTag ''ssi'') plain_set) ''ssi'' =
       (Some (tag_already_banned ''ssi''), step toy_env (DoBanTag ''ssi'') plain_set)"
    using ban_errors [of "''ssi''" toy_env "step toy_env (DoBanTag ''ssi'') plain_set"] a c
    by blast
  have 4: "snd (BanTag toy_env plain_set ''ssi'') =
       plain_set\<lparr>bannedTags := (bannedTags plain_set)(''ssi'' \<mapsto> True)\<rparr>"
    using ban_errors [of "''ssi''" toy_env plain_set] d by blast
  have 5: "BanFilter toy_env plain_set ''lower'' = (Some (filter_not_found ''lower''), plain_set)"
    using ban_errors [of "''lower''" toy_env plain_set] a by blast
  have 6: "BanFilter toy_env frozen_set ''upper'' = (Some filters_frozen, frozen_set)"
    using ban_errors [of "''upper''" toy_env frozen_set] a b by blast
  have 7: "BanFilter toy_env (step toy_env (DoBanFilter ''upper'') plain_set) ''upper'' =
       (Some (filter_already_banned ''upper''), step toy_env (DoBanFilter ''upper'') plain_set)"
    using ban_errors [of "''upper''" toy_env "step toy_env (DoBanFilter ''upper'') plain_set"] a c
    by blast
  have 8: "snd (BanFilter toy_env plain_set ''upper'') =
       plain_set\<lparr>bannedFilters := (bannedFilters plain_set)(''upper'' \<mapsto> True)\<rparr>"
    using ban_errors [of "''upper''" toy_env plain_set] d by blast
  show ?thesis using 1 2 3 4 5 6 7 8 by blast
qed

text \<open>
  Claim C7 as it is written, "fails with an already-banned error when the name is already
  in the banned set", does not hold on \<open>frozen_set\<close>: the tag \<^verbatim>\<open>ssi\<close> is in
  \<^verbatim>\<open>bannedTags\<close>, and banning it again gives the frozen error, which is checked first.
\<close>

theorem already_banned_counterexample:
  "''ssi'' \<in> tags toy_env
   \<and> bannedTags frozen_set ''ssi'' = Some True
   \<and> BanTag toy_env frozen_set ''ssi'' = (Some tags_frozen, frozen_set)
   \<and> tags_frozen \<noteq> tag_already_banned ''ssi''"
  by (simp add: frozen_set_def toy_defs)

subsection \<open>Resolution from inside a template made from a string\<close>

text \<open>
  Claim C4, as the source has it. When the requesting template was made from a string
  (\<^verbatim>\<open>isTplString\<close> is true), \<^verbatim>\<open>resolveFilename\<close> returns the requested name as it is
  and does not ask the loader. The result is the top-level resolution
  \<^verbatim>\<open>Abs("", path)\<close> exactly when the loader's \<^verbatim>\<open>Abs("", path)\<close> is \<^verbatim>\<open>path\<close> itself.
\<close>

theorem resolve_from_string_template:
  assumes "isTplString tpl"
  shows "resolveFilename ts (Some tpl) path = path
     \<and> (resolveFilename ts (Some tpl) path = Abs (loader ts) '''' path
          \<longleftrightarrow> Abs (loader ts) '''' path = path)
     \<and> resolveFilename (ts\<lparr>loader := l\<rparr>) (Some tpl) path = resolveFilename ts (Some tpl) path"
  using assms by (auto simp add: resolveFilename_def)

theorem resolve_from_string_template_witness:
  "isTplString string_tpl
   \<and> resolveFilename prefix_set (Some string_tpl) ''a.txt'' = ''a.txt''
   \<and> resolveFilename plain_set (Some string_tpl) ''a.txt'' = Abs (loader plain_set) '''' ''a.txt''"
proof -
  have s: "isTplString string_tpl" by (simp add: string_tpl_def)
  have p: "Abs (loader plain_set) '''' ''a.txt'' = ''a.txt''"
    by (simp add: plain_set_def NewSet_def plain_loader_def)
  show ?thesis
    using resolve_from_string_template [OF s, of prefix_set "''a.txt''"]
      resolve_from_string_template [OF s, of plain_set "''a.txt''"] s p
    by simp
qed

text \<open>
  Claim C4 as it is written fails for a loader whose \<^verbatim>\<open>Abs\<close> changes the name: from a
  template made from a string, \<^verbatim>\<open>a.txt\<close> resolves to \<^verbatim>\<open>a.txt\<close>, while the top-level
  resolution of the loader is \<^verbatim>\<open>tpl/a.txt\<close>.
\<close>

theorem resolve_from_string_template_counterexample:
  "isTplString string_tpl
   \<and> resolveFilename prefix_set (Some string_tpl) ''a.txt'' = ''a.txt''
   \<and> Abs (loader prefix_set) '''' ''a.txt'' = ''tpl/a.txt''
   \<and> resolveFilename prefix_set (Some string_tpl) ''a.txt'' \<noteq> Abs (loader prefix_set) '''' ''a.txt''"
  by (simp add: string_tpl_def resolveFilename_def prefix_set_def NewSet_def prefix_loader_def)

subsection \<open>Resolution depends on the loader alone\<close>

text \<open>
  Claim C9. \<^verbatim>\<open>resolveFilename\<close> gives the same path for the same requesting template
  and name whatever the contents of \<^verbatim>\<open>templateCache\<close>, \<^verbatim>\<open>bannedTags\<close>,
  \<^verbatim>\<open>bannedFilters\<close> and \<^verbatim>\<open>firstTemplateCreated\<close> (and of \<^verbatim>\<open>Globals\<close> and \<^verbatim>\<open>Debug\<close>),
  and it gives the same path again after any sequence of actions on the set. The loader
  is a pair of functions, so two calls on one state are equal by construction.
\<close>

theorem resolve_independent_of_state:
  "resolveFilename
      (ts\<lparr>templateCache := c, bannedTags := bt, bannedFilters := bf, firstTemplateCreated := b,
           Globals := g, Debug := d\<rparr>) tpl path
     = resolveFilename ts tpl path
   \<and> resolveFilename (run env as ts) tpl path = resolveFilename ts tpl path"
  by (simp add: resolveFilename_def loader_run)

subsection \<open>The flag \<^verbatim>\<open>firstTemplateCreated\<close>\<close>

text \<open>
  Claim C3, as the source has it. \<^verbatim>\<open>firstTemplateCreated\<close> is false in a new set.
  \<^verbatim>\<open>FromString\<close> and \<^verbatim>\<open>FromFile\<close> set it as their first statement, before the fetch and
  the compile, so it is true after every such call, successful or failing; the same holds
  of a \<^verbatim>\<open>FromCache\<close> call in debug mode or on a cache miss, while a cache hit leaves the
  set as it is. On a set reached from a new one the flag is true after every successful
  \<^verbatim>\<open>FromString\<close>, \<^verbatim>\<open>FromFile\<close> or \<^verbatim>\<open>FromCache\<close>. Once true it stays true through every
  sequence of actions.
\<close>

theorem latch_set_by_every_compile:
  fixes env :: "'v env"
  shows "\<not> firstTemplateCreated (NewSet n l :: 'v TemplateSet)
   \<and> firstTemplateCreated (fst (snd (FromString env ts tpl)))
   \<and> firstTemplateCreated (fst (snd (FromFile env ts filename)))
   \<and> (Debug ts \<or> templateCache ts (resolveFilename ts None filename) = None \<longrightarrow>
        firstTemplateCreated (fst (snd (FromCache env ts filename))))
   \<and> (\<not> Debug ts \<and> templateCache ts (resolveFilename ts None filename) \<noteq> None \<longrightarrow>
        fst (snd (FromCache env ts filename)) = ts)
   \<and> (succeeds env a (run env pre (NewSet n l)) \<longrightarrow>
        firstTemplateCreated (step env a (run env pre (NewSet n l))))
   \<and> (firstTemplateCreated ts \<longrightarrow> firstTemplateCreated (run env as ts))"
proof -
  have 1: "\<not> firstTemplateCreated (NewSet n l :: 'v TemplateSet)"
    by (simp add: NewSet_def)
  have 2: "firstTemplateCreated (fst (snd (FromString env ts tpl)))"
    by (simp add: FromString_state)
  have 3: "firstTemplateCreated (fst (snd (FromFile env ts filename)))"
    by (simp add: FromFile_state)
  have 4: "Debug ts \<or> templateCache ts (resolveFilename ts None filename) = None \<longrightarrow>
        firstTemplateCreated (fst (snd (FromCache env ts filename)))"
    by (auto simp add: FromCache_state split: sum.split)
  have 5: "\<not> Debug ts \<and> templateCache ts (resolveFilename ts None filename) \<noteq> None \<longrightarrow>
        fst (snd (FromCache env ts filename)) = ts"
    by (auto simp add: FromCache_state)
  have 6: "succeeds env a (run env pre (NewSet n l)) \<longrightarrow>
        firstTemplateCreated (step env a (run env pre (NewSet n l)))"
    using latch_after_success inv_run inv_NewSet by blast
  have 7: "firstTemplateCreated ts \<longrightarrow> firstTemplateCreated (run env as ts)"
    using latch_run by blast
  show ?thesis using 1 2 3 4 5 6 7 by blast
qed

theorem latch_set_by_every_compile_witness:
  "\<not> firstTemplateCreated plain_set
   \<and> templateCache plain_set (resolveFilename plain_set None ''page.txt'') = None
   \<and> firstTemplateCreated (fst (snd (FromCache toy_env plain_set ''page.txt'')))
   \<and> succeeds toy_env (DoFromCache ''page.txt'') (run toy_env [DoBanTag ''ssi''] plain_set)
   \<and> firstTemplateCreated
        (step toy_env (DoFromCache ''page.txt'') (run toy_env [DoBanTag ''ssi''] plain_set))
   \<and> firstTemplateCreated frozen_set
   \<and> firstTemplateCreated (run toy_env [DoBanFilter ''upper'', SetDebug True] frozen_set)"
proof -
  have a: "templateCache plain_set (resolveFilename plain_set None ''page.txt'') = None"
    by (simp add: plain_set_def NewSet_def)
  have b: "succeeds toy_env (DoFromCache ''page.txt'') (run toy_env [DoBanTag ''ssi''] (NewSet ''web'' plain_loader))"
    by (simp add: toy_defs)
  have c: "firstTemplateCreated frozen_set"
    by (simp add: frozen_set_eq)
  show ?thesis
    using latch_set_by_every_compile
        [of "''web''" plain_loader toy_env plain_set "''hello''" "''page.txt''"
            "DoFromCache ''page.txt''" "[DoBanTag ''ssi'']" "[]"]
      latch_set_by_every_compile
        [of "''web''" plain_loader toy_env frozen_set "''hello''" "''page.txt''"
            "DoFromCache ''page.txt''" "[DoBanTag ''ssi'']" "[DoBanFilter ''upper'', SetDebug True]"]
      a b c
    by (simp add: plain_set_def)
qed

text \<open>
  Claim C3 as it is written, "a \<^verbatim>\<open>FromFile\<close> or \<^verbatim>\<open>FromCache\<close> call that fails with no prior
  successful compile leaves the latch false", does not hold: on a new set, \<^verbatim>\<open>FromFile\<close>
  of a file that the loader does not have fails at the fetch, and \<^verbatim>\<open>FromCache\<close> of a
  file with a malformed source fails at the compile; the flag is true after each.
\<close>

theorem latch_after_failure_counterexample:
  "\<not> firstTemplateCreated plain_set
   \<and> fst (FromFile toy_env plain_set ''missing.txt'') =
       Inl (Error ''missing.txt'' ''fromfile'' ''not found'')
   \<and> firstTemplateCreated (fst (snd (FromFile toy_env plain_set ''missing.txt'')))
   \<and> fst (FromCache toy_env plain_set ''bad.txt'') =
       Inl (Error ''bad.txt'' ''parser'' ''unexpected EOF'')
   \<and> firstTemplateCreated (fst (snd (FromCache toy_env plain_set ''bad.txt'')))"
  by (simp add: toy_defs)

subsection \<open>Failures are not cached\<close>

text \<open>
  Claim C5, as the source has it. Let \<^verbatim>\<open>FromCache\<close> fail on a set with \<^verbatim>\<open>Debug\<close> false,
  and let \<open>k\<close> be the cache key, the resolved filename. Then the cache is as before (the
  set differs from the one before the call in \<^verbatim>\<open>firstTemplateCreated\<close> alone) and the
  loader was asked: the first outside call is \<^verbatim>\<open>Get\<close> of some path \<open>q\<close>.
  \<^item> When \<^verbatim>\<open>Get\<close> of \<open>q\<close> failed with the message \<open>msg\<close>, the error is
    \<^verbatim>\<open>Error{Filename: k, Sender: "fromfile", ErrorMsg: msg}\<close> and nothing else was called.
  \<^item> When the read of the reader failed with the message \<open>msg\<close>, the error is the same
    struct with that message, and the compiler was not called.
  \<^item> When the bytes arrived, the compiler was called on them under the name \<open>k\<close> and
    the error is the one that \<^verbatim>\<open>newTemplate\<close> returned.

  So a failure at the fetch carries the resolved name, not the requested one, and the
  sender \<^verbatim>\<open>fromfile\<close>. The same request on the resulting set makes the same outside
  calls and fails with the same error.
\<close>

theorem failure_not_cached:
  assumes "\<not> Debug ts"
    and "FromCache env ts filename = (Inl err, ts1, cs)"
    and "k = resolveFilename ts None filename"
  shows "templateCache ts1 = templateCache ts
     \<and> ts1 = ts\<lparr>firstTemplateCreated := True\<rparr>
     \<and> (\<exists>q. hd cs = CallGet q) \<and> cs \<noteq> []
     \<and> (hd cs = CallGet q \<and> Get (loader ts) q = Inl msg \<longrightarrow>
          err = Error k ''fromfile'' msg \<and> cs = [CallGet q])
     \<and> (hd cs = CallGet q \<and> Get (loader ts) q = Inr fd \<and> ReadAll fd = Inl msg \<longrightarrow>
          err = Error k ''fromfile'' msg \<and> cs = [CallGet q, CallReadAll])
     \<and> (hd cs = CallGet q \<and> Get (loader ts) q = Inr fd \<and> ReadAll fd = Inr buf \<longrightarrow>
          newTemplate env ts1 k False buf = Inl err
          \<and> cs = [CallGet q, CallReadAll, CallNewTemplate k False buf])
     \<and> ((\<forall>buf. CallNewTemplate k False buf \<notin> set cs) \<longrightarrow>
          (\<exists>msg. err = Error k ''fromfile'' msg))
     \<and> (CallNewTemplate k False buf \<in> set cs \<longrightarrow> newTemplate env ts1 k False buf = Inl err)
     \<and> FromCache env ts1 filename = (Inl err, ts1, cs)"
proof -
  have miss: "templateCache ts k = None"
    using assms by (auto simp add: FromCache_def Let_def split: option.splits)
  obtain r ts' cs' where ff: "FromFile env ts k = (r, ts', cs')"
    by (metis prod_cases3)
  have r: "r = Inl err" and ts1: "ts1 = ts'" and cs: "cs = cs'"
    using assms miss ff by (cases r; simp add: FromCache_def Let_def)+
  have st: "ts1 = ts\<lparr>firstTemplateCreated := True\<rparr>"
    using FromFile_state [of env ts k] ff ts1 by simp
  have k1: "resolveFilename ts1 None filename = k"
    using assms(3) st by (simp add: resolveFilename_def)
  have ff': "FromFile env ts k = (Inl err, ts1, cs)"
    using ff r ts1 cs by simp
  have again: "FromFile env ts1 k = FromFile env ts k"
    using st by (simp add: FromFile_def Let_def resolveFilename_def)
  have 1: "templateCache ts1 = templateCache ts"
    using st by simp
  have 2: "(\<exists>q. hd cs = CallGet q) \<and> cs \<noteq> []"
    using ff' by (auto simp add: FromFile_def Let_def split: sum.splits)
  have 3: "(\<forall>buf. CallNewTemplate k False buf \<notin> set cs) \<longrightarrow>
          (\<exists>msg. err = Error k ''fromfile'' msg)"
    using ff' by (auto simp add: FromFile_def Let_def split: sum.splits)
  have 4: "CallNewTemplate k False buf \<in> set cs \<longrightarrow> newTemplate env ts1 k False buf = Inl err"
    using ff' st by (auto simp add: FromFile_def Let_def split: sum.splits)
  have 5: "FromCache env ts1 filename = (Inl err, ts1, cs)"
    using assms(1) miss st k1 again ff' by (simp add: FromCache_def Let_def)
  have 6: "hd cs = CallGet q \<and> Get (loader ts) q = Inl msg \<longrightarrow>
          err = Error k ''fromfile'' msg \<and> cs = [CallGet q]"
    using ff' by (auto simp add: FromFile_def Let_def split: sum.splits)
  have 7: "hd cs = CallGet q \<and> Get (loader ts) q = Inr fd \<and> ReadAll fd = Inl msg \<longrightarrow>
          err = Error k ''fromfile'' msg \<and> cs = [CallGet q, CallReadAll]"
    using ff' by (auto simp add: FromFile_def Let_def split: sum.splits)
  have 8: "hd cs = CallGet q \<and> Get (loader ts) q = Inr fd \<and> ReadAll fd = Inr buf \<longrightarrow>
          newTemplate env ts1 k False buf = Inl err
          \<and> cs = [CallGet q, CallReadAll, CallNewTemplate k False buf]"
    using ff' st by (auto simp add: FromFile_def Let_def split: sum.splits)
  show ?thesis using 1 st 2 3 4 5 6 7 8 by blast
qed

theorem failure_not_cached_witness:
  "\<not> Debug plain_set
   \<and> FromCache toy_env plain_set ''missing.txt'' =
       (Inl (Error ''missing.txt'' ''fromfile'' ''not found''),
        plain_set\<lparr>firstTemplateCreated := True\<rparr>, [CallGet ''missing.txt''])
   \<and> Get (loader plain_set) ''missing.txt'' = Inl ''not found''
   \<and> templateCache (plain_set\<lparr>firstTemplateCreated := True\<rparr>) = templateCache plain_set
   \<and> FromCache toy_env (plain_set\<lparr>firstTemplateCreated := True\<rparr>) ''missing.txt'' =
       (Inl (Error ''missing.txt'' ''fromfile'' ''not found''),
        plain_set\<lparr>firstTemplateCreated := True\<rparr>, [CallGet ''missing.txt''])"
proof -
  have nd: "\<not> Debug plain_set"
    by (simp add: plain_set_def NewSet_def)
  have fc: "FromCache toy_env plain_set ''missing.txt'' =
       (Inl (Error ''missing.txt'' ''fromfile'' ''not found''),
        plain_set\<lparr>firstTemplateCreated := True\<rparr>, [CallGet ''missing.txt''])"
    by (simp add: toy_defs)
  have k: "''missing.txt'' = resolveFilename plain_set None ''missing.txt''"
    by (simp add: toy_defs)
  have g: "Get (loader plain_set) ''missing.txt'' = Inl ''not found''"
    by (simp add: toy_defs)
  show ?thesis
    using failure_not_cached [OF nd fc k] nd fc g by blast
qed

text \<open>
  Claim C5 as it is written, "the returned error is tagged with the requested path", fails
  for a loader whose \<^verbatim>\<open>Abs\<close> changes the name: the request for \<^verbatim>\<open>missing.txt\<close> fails
  with an error whose \<^verbatim>\<open>Filename\<close> is \<^verbatim>\<open>tpl/missing.txt\<close>.
\<close>

theorem failure_tag_counterexample:
  "\<not> Debug prefix_set
   \<and> fst (FromCache toy_env prefix_set ''missing.txt'') =
       Inl (Error ''tpl/missing.txt'' ''fromfile'' ''not found'')
   \<and> Filename (projl (fst (FromCache toy_env prefix_set ''missing.txt''))) \<noteq> ''missing.txt''"
  by (simp add: toy_defs)

subsection \<open>Debug mode goes past the cache\<close>

lemma FromFile_cache_update:
  "fst (snd (FromFile env (ts\<lparr>templateCache := c\<rparr>) filename)) =
     (fst (snd (FromFile env ts filename)))\<lparr>templateCache := c\<rparr>
   \<and> snd (snd (FromFile env (ts\<lparr>templateCache := c\<rparr>) filename)) =
     snd (snd (FromFile env ts filename))"
  by (simp add: FromFile_def Let_def resolveFilename_def split: sum.split)

lemma cache_step_debug:
  assumes "Debug ts"
  shows "templateCache (step env a ts) = templateCache ts"
proof (cases a)
  case (DoBanTag name)
  then show ?thesis using BanTag_state [of env ts name] by auto
next
  case (DoBanFilter name)
  then show ?thesis using BanFilter_state [of env ts name] by auto
qed (use assms in \<open>simp_all add: step_states\<close>)

lemma FromFile_twice:
  "FromFile env (fst (snd (FromFile env ts filename))) filename = FromFile env ts filename"
  by (simp add: FromFile_state) (simp add: FromFile_def Let_def resolveFilename_def)

text \<open>
  Claim C8. On a set with \<^verbatim>\<open>Debug\<close> true, \<^verbatim>\<open>FromCache\<close> is \<^verbatim>\<open>FromFile\<close>. Each call asks
  the loader first, for the resolved path \<open>p\<close>, and what it returns is decided by the
  loader, the reader and the compiler alone:
  \<^item> when \<^verbatim>\<open>Get\<close> fails, or the read of its reader fails, the call returns the error
    \<^verbatim>\<open>Error{Filename: filename, Sender: "fromfile"}\<close> with the message of that failure,
    and the compiler is not called;
  \<^item> when the bytes arrive, the outside calls are exactly \<^verbatim>\<open>Get\<close>, the read, and
    \<^verbatim>\<open>newTemplate\<close> on these bytes, and the call returns what \<^verbatim>\<open>newTemplate\<close> returns.

  The set after the call is still in debug mode, and a second call for the same path
  does all of it again: the same outside calls, the same result. The cache is not
  written: it is the same after the call, and after any action on a set in debug mode.
  It is not read: with any cache \<open>c\<close> in place, whatever it holds under the path, the
  call makes the same outside calls, leaves the same set with \<open>c\<close> as its cache, and
  returns the error of the fetch or what \<^verbatim>\<open>newTemplate\<close> returns on the fetched bytes.
\<close>

theorem debug_bypasses_cache:
  assumes "Debug ts"
    and "p = resolveFilename ts None filename"
  shows "FromCache env ts filename = FromFile env ts filename
     \<and> snd (snd (FromCache env ts filename)) \<noteq> []
     \<and> hd (snd (snd (FromCache env ts filename))) = CallGet (resolveFilename ts None filename)
     \<and> (Get (loader ts) (resolveFilename ts None filename) = Inr fd \<and> ReadAll fd = Inr buf \<longrightarrow>
          snd (snd (FromCache env ts filename)) =
            [CallGet (resolveFilename ts None filename), CallReadAll,
             CallNewTemplate filename False buf])
     \<and> Debug (fst (snd (FromCache env ts filename)))
     \<and> snd (snd (FromCache env (fst (snd (FromCache env ts filename))) filename)) =
          snd (snd (FromCache env ts filename))
     \<and> templateCache (fst (snd (FromCache env ts filename))) = templateCache ts
     \<and> templateCache (step env a ts) = templateCache ts
     \<and> fst (snd (FromCache env (ts\<lparr>templateCache := c\<rparr>) filename)) =
          (fst (snd (FromCache env ts filename)))\<lparr>templateCache := c\<rparr>
     \<and> snd (snd (FromCache env (ts\<lparr>templateCache := c\<rparr>) filename)) =
          snd (snd (FromCache env ts filename))
     \<and> (Get (loader ts) p = Inl msg \<longrightarrow>
          FromCache env ts filename =
            (Inl (Error filename ''fromfile'' msg), ts\<lparr>firstTemplateCreated := True\<rparr>,
             [CallGet p]))
     \<and> (Get (loader ts) p = Inr fd \<and> ReadAll fd = Inl msg \<longrightarrow>
          FromCache env ts filename =
            (Inl (Error filename ''fromfile'' msg), ts\<lparr>firstTemplateCreated := True\<rparr>,
             [CallGet p, CallReadAll]))
     \<and> (Get (loader ts) p = Inr fd \<and> ReadAll fd = Inr buf \<longrightarrow>
          FromCache env ts filename =
            (newTemplate env (ts\<lparr>firstTemplateCreated := True\<rparr>) filename False buf,
             ts\<lparr>firstTemplateCreated := True\<rparr>,
             [CallGet p, CallReadAll, CallNewTemplate filename False buf]))
     \<and> FromCache env (fst (snd (FromCache env ts filename))) filename =
          FromCache env ts filename
     \<and> (Get (loader ts) p = Inl msg \<or> Get (loader ts) p = Inr fd \<and> ReadAll fd = Inl msg \<longrightarrow>
          fst (FromCache env (ts\<lparr>templateCache := c\<rparr>) filename) =
            Inl (Error filename ''fromfile'' msg))
     \<and> (Get (loader ts) p = Inr fd \<and> ReadAll fd = Inr buf \<longrightarrow>
          fst (FromCache env (ts\<lparr>templateCache := c\<rparr>) filename) =
            newTemplate env (ts\<lparr>templateCache := c, firstTemplateCreated := True\<rparr>)
              filename False buf)"
proof -
  let ?ts1 = "ts\<lparr>firstTemplateCreated := True\<rparr>"
  have 1: "FromCache env ts filename = FromFile env ts filename"
    using assms(1) by (simp add: FromCache_def)
  have st: "fst (snd (FromCache env ts filename)) = ?ts1"
    using 1 by (simp add: FromFile_state)
  have 2: "hd (snd (snd (FromCache env ts filename))) = CallGet (resolveFilename ts None filename)"
    unfolding 1 by (simp add: FromFile_def Let_def resolveFilename_def split: sum.split)
  have 0: "snd (snd (FromCache env ts filename)) \<noteq> []"
    unfolding 1 by (simp add: FromFile_def Let_def split: sum.split)
  have 3: "Get (loader ts) (resolveFilename ts None filename) = Inr fd \<and> ReadAll fd = Inr buf \<longrightarrow>
          snd (snd (FromCache env ts filename)) =
            [CallGet (resolveFilename ts None filename), CallReadAll,
             CallNewTemplate filename False buf]"
    unfolding 1 by (simp add: FromFile_def Let_def resolveFilename_def)
  have 4: "Debug (fst (snd (FromCache env ts filename)))"
    using assms(1) st by simp
  have d1: "Debug (fst (snd (FromFile env ts filename)))"
    using 4 1 by simp
  have 13: "FromCache env (fst (snd (FromCache env ts filename))) filename =
          FromCache env ts filename"
    unfolding 1 using d1 by (simp add: FromCache_def FromFile_twice)
  have 5: "snd (snd (FromCache env (fst (snd (FromCache env ts filename))) filename)) =
          snd (snd (FromCache env ts filename))"
    using 13 by simp
  have 6: "templateCache (fst (snd (FromCache env ts filename))) = templateCache ts"
    using st by simp
  have 7: "templateCache (step env a ts) = templateCache ts"
    using assms(1) by (rule cache_step_debug)
  have c: "FromCache env (ts\<lparr>templateCache := c\<rparr>) filename =
      FromFile env (ts\<lparr>templateCache := c\<rparr>) filename"
    using assms(1) by (simp add: FromCache_def)
  have 8: "fst (snd (FromCache env (ts\<lparr>templateCache := c\<rparr>) filename)) =
          (fst (snd (FromCache env ts filename)))\<lparr>templateCache := c\<rparr>"
    unfolding c 1 using FromFile_cache_update by blast
  have 9: "snd (snd (FromCache env (ts\<lparr>templateCache := c\<rparr>) filename)) =
          snd (snd (FromCache env ts filename))"
    unfolding c 1 using FromFile_cache_update by blast
  have 10: "Get (loader ts) p = Inl msg \<longrightarrow>
          FromCache env ts filename =
            (Inl (Error filename ''fromfile'' msg), ?ts1, [CallGet p])"
    unfolding 1 using assms(2) by (simp add: FromFile_def Let_def resolveFilename_def)
  have 11: "Get (loader ts) p = Inr fd \<and> ReadAll fd = Inl msg \<longrightarrow>
          FromCache env ts filename =
            (Inl (Error filename ''fromfile'' msg), ?ts1, [CallGet p, CallReadAll])"
    unfolding 1 using assms(2) by (simp add: FromFile_def Let_def resolveFilename_def)
  have 12: "Get (loader ts) p = Inr fd \<and> ReadAll fd = Inr buf \<longrightarrow>
          FromCache env ts filename =
            (newTemplate env ?ts1 filename False buf, ?ts1,
             [CallGet p, CallReadAll, CallNewTemplate filename False buf])"
    unfolding 1 using assms(2) by (simp add: FromFile_def Let_def resolveFilename_def)
  have 14: "Get (loader ts) p = Inl msg \<or> Get (loader ts) p = Inr fd \<and> ReadAll fd = Inl msg \<longrightarrow>
          fst (FromCache env (ts\<lparr>templateCache := c\<rparr>) filename) =
            Inl (Error filename ''fromfile'' msg)"
    unfolding c using assms(2) by (auto simp add: FromFile_def Let_def resolveFilename_def)
  have 15: "Get (loader ts) p = Inr fd \<and> ReadAll fd = Inr buf \<longrightarrow>
          fst (FromCache env (ts\<lparr>templateCache := c\<rparr>) filename) =
            newTemplate env (ts\<lparr>templateCache := c, firstTemplateCreated := True\<rparr>)
              filename False buf"
    unfolding c using assms(2) by (simp add: FromFile_def Let_def resolveFilename_def)
  show ?thesis using 0 1 2 3 4 5 6 7 8 9 10 11 12 13 14 15 by blast
qed

theorem debug_bypasses_cache_witness:
  "Debug debug_set
   \<and> FromCache toy_env debug_set ''page.txt'' = FromFile toy_env debug_set ''page.txt''
   \<and> snd (snd (FromCache toy_env debug_set ''page.txt'')) =
       [CallGet ''page.txt'', CallReadAll, CallNewTemplate ''page.txt'' False ''hello'']
   \<and> snd (snd (FromCache toy_env (fst (snd (FromCache toy_env debug_set ''page.txt''))) ''page.txt'')) =
       [CallGet ''page.txt'', CallReadAll, CallNewTemplate ''page.txt'' False ''hello'']
   \<and> templateCache (fst (snd (FromCache toy_env debug_set ''page.txt''))) = templateCache debug_set
   \<and> fst (FromCache toy_env debug_set ''page.txt'') = Inr page_tpl
   \<and> fst (FromCache toy_env (fst (snd (FromCache toy_env debug_set ''page.txt''))) ''page.txt'') =
       Inr page_tpl
   \<and> templateCache stale_debug_set ''page.txt'' = Some string_tpl
   \<and> fst (FromCache toy_env stale_debug_set ''page.txt'') = Inr page_tpl
   \<and> page_tpl \<noteq> string_tpl"
proof -
  have d: "Debug debug_set"
    by (simp add: debug_set_def)
  have r: "resolveFilename debug_set None ''page.txt'' = ''page.txt''"
    by (simp add: debug_set_def toy_defs)
  have g: "Get (loader debug_set) ''page.txt'' = Inr (Reader (Inr ''hello''))"
    "ReadAll (Reader (Inr ''hello'')) = Inr ''hello''"
    by (simp_all add: debug_set_def toy_defs)
  have n: "newTemplate toy_env (debug_set\<lparr>firstTemplateCreated := True\<rparr>)
             ''page.txt'' False ''hello'' = Inr page_tpl"
    "newTemplate toy_env
        (debug_set\<lparr>templateCache := [''page.txt'' \<mapsto> string_tpl], firstTemplateCreated := True\<rparr>)
        ''page.txt'' False ''hello'' = Inr page_tpl"
    by (simp_all add: toy_env_def page_tpl_def)
  have s: "templateCache stale_debug_set ''page.txt'' = Some string_tpl"
    "page_tpl \<noteq> string_tpl"
    by (simp_all add: stale_debug_set_def page_tpl_def string_tpl_def)
  note t = debug_bypasses_cache
      [OF d r [symmetric], of toy_env "Reader (Inr ''hello'')" "''hello''" _
          "[''page.txt'' \<mapsto> string_tpl]", unfolded r]
  have 1: "FromCache toy_env debug_set ''page.txt'' = FromFile toy_env debug_set ''page.txt''"
    using t by blast
  have 2: "snd (snd (FromCache toy_env debug_set ''page.txt'')) =
       [CallGet ''page.txt'', CallReadAll, CallNewTemplate ''page.txt'' False ''hello'']"
    using t g by blast
  have "snd (snd (FromCache toy_env (fst (snd (FromCache toy_env debug_set ''page.txt''))) ''page.txt'')) =
       snd (snd (FromCache toy_env debug_set ''page.txt''))"
    using t by blast
  then have 3: "snd (snd (FromCache toy_env (fst (snd (FromCache toy_env debug_set ''page.txt''))) ''page.txt'')) =
       [CallGet ''page.txt'', CallReadAll, CallNewTemplate ''page.txt'' False ''hello'']"
    using 2 by (rule trans)
  have 4: "templateCache (fst (snd (FromCache toy_env debug_set ''page.txt''))) = templateCache debug_set"
    using t by blast
  have "FromCache toy_env debug_set ''page.txt'' =
      (newTemplate toy_env (debug_set\<lparr>firstTemplateCreated := True\<rparr>) ''page.txt'' False ''hello'',
       debug_set\<lparr>firstTemplateCreated := True\<rparr>,
       [CallGet ''page.txt'', CallReadAll, CallNewTemplate ''page.txt'' False ''hello''])"
    using t g by blast
  then have 5: "fst (FromCache toy_env debug_set ''page.txt'') = Inr page_tpl"
    using n(1) by simp
  have "FromCache toy_env (fst (snd (FromCache toy_env debug_set ''page.txt''))) ''page.txt'' =
      FromCache toy_env debug_set ''page.txt''"
    using t by blast
  then have 6: "fst (FromCache toy_env (fst (snd (FromCache toy_env debug_set ''page.txt''))) ''page.txt'') =
       Inr page_tpl"
    using 5 by simp
  have "fst (FromCache toy_env (debug_set\<lparr>templateCache := [''page.txt'' \<mapsto> string_tpl]\<rparr>) ''page.txt'') =
      newTemplate toy_env
        (debug_set\<lparr>templateCache := [''page.txt'' \<mapsto> string_tpl], firstTemplateCreated := True\<rparr>)
        ''page.txt'' False ''hello''"
    using t g by blast
  then have 7: "fst (FromCache toy_env stale_debug_set ''page.txt'') = Inr page_tpl"
    using n(2) by (simp add: stale_debug_set_def)
  show ?thesis using d 1 2 3 4 5 6 7 s by blast
qed

subsection \<open>The cache key and the path that is fetched\<close>

text \<open>
  On a cache miss \<^verbatim>\<open>FromCache\<close> hands the resolved name to \<^verbatim>\<open>FromFile\<close>, which resolves
  its argument again: the cache key is \<^verbatim>\<open>Abs("", filename)\<close> and the path asked of the
  loader is \<^verbatim>\<open>Abs("", Abs("", filename))\<close>.
\<close>

lemma FromCache_miss_fetch:
  assumes "\<not> Debug ts"
    and "templateCache ts (Abs (loader ts) '''' filename) = None"
  shows "hd (snd (snd (FromCache env ts filename))) =
           CallGet (Abs (loader ts) '''' (Abs (loader ts) '''' filename))"
proof -
  obtain r ts1 cs where ff: "FromFile env ts (Abs (loader ts) '''' filename) = (r, ts1, cs)"
    by (metis prod_cases3)
  have "hd cs = CallGet (Abs (loader ts) '''' (Abs (loader ts) '''' filename))"
    using ff by (auto simp add: FromFile_def Let_def resolveFilename_def split: sum.splits)
  then show ?thesis
    using assms ff by (cases r) (simp_all add: FromCache_def Let_def resolveFilename_def)
qed

text \<open>
  Claim C6, evaluated on the loader that keeps its templates under \<^verbatim>\<open>tpl/\<close> and serves
  \<^verbatim>\<open>tpl/page.txt\<close>. With \<^verbatim>\<open>Debug\<close> false the cache key of \<^verbatim>\<open>page.txt\<close> is
  \<^verbatim>\<open>tpl/page.txt\<close>, as the claim says, but the path asked of the loader is
  \<^verbatim>\<open>tpl/tpl/page.txt\<close>, and the request fails. \<^verbatim>\<open>FromFile\<close> of the same name, and
  \<^verbatim>\<open>FromCache\<close> in debug mode, ask for \<^verbatim>\<open>tpl/page.txt\<close> and return the template.
\<close>

theorem cache_miss_resolves_twice:
  "\<not> Debug prefix_set
   \<and> resolveFilename prefix_set None ''page.txt'' = ''tpl/page.txt''
   \<and> templateCache prefix_set ''tpl/page.txt'' = None
   \<and> FromCache toy_env prefix_set ''page.txt'' =
       (Inl (Error ''tpl/page.txt'' ''fromfile'' ''not found''),
        prefix_set\<lparr>firstTemplateCreated := True\<rparr>,
        [CallGet ''tpl/tpl/page.txt''])
   \<and> FromFile toy_env prefix_set ''page.txt'' =
       (Inr page_tpl, prefix_set\<lparr>firstTemplateCreated := True\<rparr>,
        [CallGet ''tpl/page.txt'', CallReadAll, CallNewTemplate ''page.txt'' False ''hello''])
   \<and> FromCache toy_env (prefix_set\<lparr>Debug := True\<rparr>) ''page.txt'' =
       (Inr page_tpl, prefix_set\<lparr>Debug := True, firstTemplateCreated := True\<rparr>,
        [CallGet ''tpl/page.txt'', CallReadAll, CallNewTemplate ''page.txt'' False ''hello''])"
  by (simp add: toy_defs page_tpl_def)

end
